theory Spec2Isabelle
  imports Main
begin

section \<open>Strings: the content-disposition encoder\<close>

text \<open>
  Go strings are byte sequences; \<^typ>\<open>string\<close> is a list of 8-bit characters, so
  a non-ASCII file name is its UTF-8 bytes, as in Go.
\<close>

text \<open>
  \<^verbatim>\<open>path.Ext\<close> of the Go standard library: the loop runs \<open>i\<close> from
  \<open>len(path) - 1\<close> down while \<open>path[i] != '/'\<close>, and returns \<open>path[i:]\<close> at the
  first dot. The argument \<open>Suc i\<close> of \<open>Ext_loop\<close> stands for the index \<open>i\<close>.
\<close>

fun Ext_loop :: "string \<Rightarrow> nat \<Rightarrow> string" where
  "Ext_loop p 0 = []"
| "Ext_loop p (Suc i) =
     (if p ! i = CHR ''/'' then []
      else if p ! i = CHR ''.'' then drop i p
      else Ext_loop p i)"

definition Ext :: "string \<Rightarrow> string" where
  "Ext p = Ext_loop p (length p)"

text \<open>
  \<^verbatim>\<open>url.QueryEscape\<close>: \<open>shouldEscape\<close> in mode \<open>encodeQueryComponent\<close> keeps
  letters, digits and \<open>- _ . ~\<close>; \<open>escape\<close> writes a space as \<open>+\<close> and every other
  escaped byte as \<open>%\<close> and two upper-case hexadecimal digits.
\<close>

definition isAlnum :: "char \<Rightarrow> bool" where
  "isAlnum c = (let n = (of_char c :: nat) in
     (97 \<le> n \<and> n \<le> 122) \<or> (65 \<le> n \<and> n \<le> 90) \<or> (48 \<le> n \<and> n \<le> 57))"

definition shouldEscape :: "char \<Rightarrow> bool" where
  "shouldEscape c =
     (if isAlnum c then False
      else if c = CHR ''-'' \<or> c = CHR ''_'' \<or> c = CHR ''.'' \<or> c = CHR ''~'' then False
      else True)"

definition upperhex :: string where
  "upperhex = ''0123456789ABCDEF''"

definition escapeByte :: "char \<Rightarrow> string" where
  "escapeByte c =
     (if shouldEscape c then
        (if c = CHR '' '' then ''+''
         else [CHR ''%'', upperhex ! ((of_char c :: nat) div 16),
               upperhex ! ((of_char c :: nat) mod 16)])
      else [c])"

fun QueryEscape :: "string \<Rightarrow> string" where
  "QueryEscape [] = []"
| "QueryEscape (c # s) = escapeByte c @ QueryEscape s"

text \<open>
  \<^verbatim>\<open>strings.ReplaceAll(s, old, new)\<close> for a non-empty \<open>old\<close>: the non-overlapping
  occurrences of \<open>old\<close> are replaced from left to right. (For an empty \<open>old\<close> Go inserts
  \<open>new\<close> around every rune; the encoder never passes one, and the model returns \<open>s\<close>.)
\<close>

function ReplaceAll :: "string \<Rightarrow> string \<Rightarrow> string \<Rightarrow> string" where
  "ReplaceAll [] old new = []"
| "ReplaceAll (c # s) old new =
     (if old \<noteq> [] \<and> take (length old) (c # s) = old
      then new @ ReplaceAll (drop (length old) (c # s)) old new
      else c # ReplaceAll s old new)"
  by pat_completeness auto
termination
  by (relation "measure (\<lambda>(s, old, new). length s)") auto

definition encodeContentDisp :: "string \<Rightarrow> string" where
  "encodeContentDisp filename =
     (let ext = Ext filename;
          escaped = QueryEscape filename;
          escaped = ReplaceAll escaped ''+'' ''%20''
      in ''attachment; filename=\"file'' @ ext @ ''\"; filename*=UTF-8'' @ [CHR 0x27, CHR 0x27] @ escaped)"






section \<open>Go values\<close>

text \<open>
  An \<^verbatim>\<open>int64\<close> is an \<^typ>\<open>int\<close>; where the source adds or negates, the
  two's-complement wrap-around is written out with \<open>wrap64\<close>. A \<^verbatim>\<open>time.Time\<close> is
  an instant in nanoseconds, a \<^verbatim>\<open>time.Duration\<close> an \<^verbatim>\<open>int64\<close> of nanoseconds.
\<close>

definition wrap64 :: "int \<Rightarrow> int" where
  "wrap64 x = (x + 2 ^ 63) mod 2 ^ 64 - 2 ^ 63"

definition maxFileSize :: int where
  "maxFileSize = 500 * 1000 * 1000"

datatype error = ErrNotFound | ErrSyntax | ErrRange | ErrUpstream string

datatype panicval = PanicStr string | PanicErr error

text \<open>
  \<^verbatim>\<open>strconv.ParseInt(s, 10, 64)\<close>: an optional sign, then \<^verbatim>\<open>ParseUint\<close>, whose loop
  rejects a byte that is not a decimal digit and stops with a range error as soon as the
  accumulated value leaves \<^verbatim>\<open>uint64\<close>; the signed range is checked last.
\<close>

definition isDigit :: "char \<Rightarrow> bool" where
  "isDigit c = (48 \<le> (of_char c :: nat) \<and> (of_char c :: nat) \<le> 57)"

fun ParseUint_loop :: "string \<Rightarrow> nat \<Rightarrow> error + nat" where
  "ParseUint_loop [] n = Inr n"
| "ParseUint_loop (c # s) n =
     (if \<not> isDigit c then Inl ErrSyntax
      else if n \<ge> (2 ^ 64 - 1) div 10 + 1 then Inl ErrRange
      else (let n1 = n * 10 + ((of_char c :: nat) - 48)
            in if n1 > 2 ^ 64 - 1 then Inl ErrRange else ParseUint_loop s n1))"

definition ParseUint :: "string \<Rightarrow> error + nat" where
  "ParseUint s = (if s = [] then Inl ErrSyntax else ParseUint_loop s 0)"

definition ParseInt :: "string \<Rightarrow> error + int" where
  "ParseInt s0 =
     (if s0 = [] then Inl ErrSyntax
      else
        (let neg = (hd s0 = CHR ''-'');
             s = (if hd s0 = CHR ''+'' \<or> hd s0 = CHR ''-'' then tl s0 else s0)
         in case ParseUint s of
              Inl err \<Rightarrow> Inl err
            | Inr un \<Rightarrow>
                if \<not> neg \<and> un \<ge> 2 ^ 63 then Inl ErrRange
                else if neg \<and> un > 2 ^ 63 then Inl ErrRange
                else Inr (if neg then - int un else int un)))"

section \<open>Data model\<close>

text \<open>
  \<^verbatim>\<open>tube.File\<close> and \<^verbatim>\<open>tube.User\<close> are declared outside \<^verbatim>\<open>web/file.go\<close>; the
  records hold the fields the handlers touch. \<open>Finished\<close> is the finished state of the
  specification's record life cycle, and \<open>CalcQuota\<close> is the value the method
  \<^verbatim>\<open>u.CalcQuota()\<close> computes (0 is unlimited).
\<close>

record File =
  ID :: string
  UserID :: int
  Name :: string
  Size :: int
  Type :: string
  LocalMod :: int
  Deleted :: bool
  Finished :: bool

record User =
  User_ID :: int
  Usage :: int
  CalcQuota :: int
  B2Token :: string
  B2Expire :: int
  LastMod :: int

text \<open>What \<^verbatim>\<open>Head\<close> reports of a stored object: \<^verbatim>\<open>head.Type\<close>, \<^verbatim>\<open>head.Size\<close>.\<close>

record ObjectInfo =
  HeadType :: string
  HeadSize :: int

datatype bucket = UploadsBucket | FilesBucket

type_synonym track = string

text \<open>The calls a handler makes to its collaborators, in the order it makes them.\<close>

datatype call =
    CallCreate File
  | CallExists bucket string
  | CallPresignPut bucket string int string
  | CallGetFile string
  | CallHead bucket string
  | CallFinish string string int
  | CallDelete bucket string
  | CallHandleUpload string int string
  | CallUpdateLastMod int
  | CallCreateB2Token int
  | CallSetB2Token int string int
  | CallEncode

text \<open>
  What a request cannot decide by itself: identifiers of new records, the derivation of the
  storage path, the URL the storage signs, the clock, the token the storage backend hands
  out, the track the processing yields, and \<open>fault\<close>, the error (if any) with which a
  collaborator call fails.
\<close>

record env =
  genID :: "nat \<Rightarrow> string"
  pathOf :: "int \<Rightarrow> string \<Rightarrow> string"
  presignURL :: "string \<Rightarrow> int \<Rightarrow> string \<Rightarrow> string"
  fault :: "call \<Rightarrow> error option"
  now :: int
  b2backend :: "int \<Rightarrow> string \<times> int"
  trackOf :: "string \<Rightarrow> string \<Rightarrow> track"

text \<open>
  The persistent state: the File and User tables, the objects of each bucket, the presigned
  PUT operations issued so far, the number of identifiers handed out, and the trace of
  collaborator calls.
\<close>

record world =
  files :: "string \<rightharpoonup> File"
  users :: "int \<rightharpoonup> User"
  objects :: "bucket \<Rightarrow> string \<rightharpoonup> ObjectInfo"
  presigned :: "(string \<times> int \<times> string) list"
  nextID :: nat
  calls :: "call list"

section \<open>The response writer\<close>

datatype hval = DecInt int | Str string

datatype chunk =
    Line string
  | JsonUpload string string string
  | JsonUploads "(string \<times> string \<times> string) list"
  | JsonTrack track

record response =
  headers :: "(string \<times> hval) list"
  status :: "int option"
  body :: "chunk list"

definition emptyResponse :: response where
  "emptyResponse = \<lparr>headers = [], status = None, body = []\<rparr>"

definition SetHeader :: "string \<Rightarrow> hval \<Rightarrow> response \<Rightarrow> response" where
  "SetHeader k v rw = rw\<lparr>headers := filter (\<lambda>kv. fst kv \<noteq> k) (headers rw) @ [(k, v)]\<rparr>"

text \<open>The first \<^verbatim>\<open>WriteHeader\<close> fixes the status; a write with none yet implies 200.\<close>

definition WriteHeader :: "int \<Rightarrow> response \<Rightarrow> response" where
  "WriteHeader code rw = (if status rw = None then rw\<lparr>status := Some code\<rparr> else rw)"

definition Write :: "chunk \<Rightarrow> response \<Rightarrow> response" where
  "Write x rw = (let rw1 = WriteHeader 200 rw in rw1\<lparr>body := body rw1 @ [x]\<rparr>)"

datatype outcome = Done | Panic panicval

section \<open>Collaborators\<close>

text \<open>
  The packages \<^verbatim>\<open>tube\<close> and \<^verbatim>\<open>storage\<close> and the function \<^verbatim>\<open>handleUpload\<close>
  are called by \<^verbatim>\<open>web/file.go\<close> and defined elsewhere. Each model below records the
  call in the trace, fails with the error \<open>fault\<close> gives for that call, and otherwise does
  what the specification says of the operation.
\<close>

definition logCall :: "call \<Rightarrow> world \<Rightarrow> world" where
  "logCall c w = w\<lparr>calls := calls w @ [c]\<rparr>"

definition userFrom :: "User option \<Rightarrow> User \<times> bool" where
  "userFrom ctx =
     (case ctx of
        Some u \<Rightarrow> (u, True)
      | None \<Rightarrow> (\<lparr>User_ID = 0, Usage = 0, CalcQuota = 0, B2Token = [], B2Expire = 0,
                  LastMod = 0\<rparr>, False))"

definition FormValue :: "(string \<rightharpoonup> string) \<Rightarrow> string \<Rightarrow> string" where
  "FormValue form k = (case form k of Some v \<Rightarrow> v | None \<Rightarrow> [])"

text \<open>
  Modelled from the spec: \<^verbatim>\<open>tube.NewFile\<close> (package tube), a record with a fresh
  identity, the owner, the display name and the declared size, not deleted, not finished.
\<close>

definition NewFile :: "env \<Rightarrow> int \<Rightarrow> string \<Rightarrow> int \<Rightarrow> world \<Rightarrow> File \<times> world" where
  "NewFile e uid name sz w =
     (\<lparr>ID = genID e (nextID w), UserID = uid, Name = name, Size = sz, Type = [],
       LocalMod = 0, Deleted = False, Finished = False\<rparr>,
      w\<lparr>nextID := Suc (nextID w)\<rparr>)"

text \<open>
  Modelled from the spec: \<^verbatim>\<open>File.Path\<close> (package tube), the storage key derived from
  the owner and the identity.
\<close>

definition Path :: "env \<Rightarrow> File \<Rightarrow> string" where
  "Path e f = pathOf e (UserID f) (ID f)"

text \<open>Modelled from the spec: \<^verbatim>\<open>File.Create\<close> (package tube) persists the record.\<close>

definition Create :: "env \<Rightarrow> File \<Rightarrow> world \<Rightarrow> error option \<times> world" where
  "Create e f w =
     (let w1 = logCall (CallCreate f) w
      in case fault e (CallCreate f) of
           Some err \<Rightarrow> (Some err, w1)
         | None \<Rightarrow> (None, w1\<lparr>files := (files w1)(ID f \<mapsto> f)\<rparr>))"

text \<open>
  Modelled from the spec: \<^verbatim>\<open>tube.GetFile\<close> (package tube) resolves a record by its
  identity; a missing record is the error \<^verbatim>\<open>ErrNotFound\<close>.
\<close>

definition GetFile :: "env \<Rightarrow> string \<Rightarrow> world \<Rightarrow> (error + File) \<times> world" where
  "GetFile e fid w =
     (let w1 = logCall (CallGetFile fid) w
      in case fault e (CallGetFile fid) of
           Some err \<Rightarrow> (Inl err, w1)
         | None \<Rightarrow> (case files w1 fid of None \<Rightarrow> (Inl ErrNotFound, w1) | Some f \<Rightarrow> (Inr f, w1)))"

text \<open>
  Modelled from the spec: \<^verbatim>\<open>File.Finish\<close> (package tube) moves the record to the
  finished state and overwrites its type and size with the values it is given.
\<close>

definition Finish :: "env \<Rightarrow> File \<Rightarrow> string \<Rightarrow> int \<Rightarrow> world \<Rightarrow> error option \<times> File \<times> world" where
  "Finish e f typ sz w =
     (let w1 = logCall (CallFinish (ID f) typ sz) w
      in case fault e (CallFinish (ID f) typ sz) of
           Some err \<Rightarrow> (Some err, f, w1)
         | None \<Rightarrow>
             (let f1 = f\<lparr>Type := typ, Size := sz, Finished := True\<rparr>
              in (None, f1, w1\<lparr>files := (files w1)(ID f \<mapsto> f1)\<rparr>)))"

text \<open>
  Modelled from the spec: the bucket operations of package storage, \<^verbatim>\<open>Exists(path)\<close>,
  \<^verbatim>\<open>PresignPut(path, size, contentDisposition)\<close>, \<^verbatim>\<open>Head(path)\<close> and
  \<^verbatim>\<open>Delete(path)\<close>.
\<close>

definition Exists :: "env \<Rightarrow> bucket \<Rightarrow> string \<Rightarrow> world \<Rightarrow> bool \<times> world" where
  "Exists e b p w = (objects w b p \<noteq> None, logCall (CallExists b p) w)"

definition PresignPut ::
  "env \<Rightarrow> bucket \<Rightarrow> string \<Rightarrow> int \<Rightarrow> string \<Rightarrow> world \<Rightarrow> (error + string) \<times> world" where
  "PresignPut e b p sz disp w =
     (let w1 = logCall (CallPresignPut b p sz disp) w
      in case fault e (CallPresignPut b p sz disp) of
           Some err \<Rightarrow> (Inl err, w1)
         | None \<Rightarrow> (Inr (presignURL e p sz disp), w1\<lparr>presigned := presigned w1 @ [(p, sz, disp)]\<rparr>))"

definition Head :: "env \<Rightarrow> bucket \<Rightarrow> string \<Rightarrow> world \<Rightarrow> (error + ObjectInfo) \<times> world" where
  "Head e b p w =
     (let w1 = logCall (CallHead b p) w
      in case fault e (CallHead b p) of
           Some err \<Rightarrow> (Inl err, w1)
         | None \<Rightarrow> (case objects w1 b p of None \<Rightarrow> (Inl ErrNotFound, w1) | Some h \<Rightarrow> (Inr h, w1)))"

definition Delete :: "env \<Rightarrow> bucket \<Rightarrow> string \<Rightarrow> world \<Rightarrow> world" where
  "Delete e b p w =
     (let w1 = logCall (CallDelete b p) w
      in w1\<lparr>objects := (objects w1)(b := (objects w1 b)(p := None))\<rparr>)"

text \<open>
  Modelled from the spec: \<^verbatim>\<open>handleUpload\<close> (package web, another file) is the
  downstream processing that turns the finished upload at a path into a track, keyed by the
  batch identifier; with it the user's usage grows by the size storage reports for the
  object (steps 4 and 5 of Finish in the specification).
\<close>

definition handleUpload ::
  "env \<Rightarrow> string \<Rightarrow> User \<Rightarrow> string \<Rightarrow> world \<Rightarrow> (error + track) \<times> world" where
  "handleUpload e p u bID w =
     (let w1 = logCall (CallHandleUpload p (User_ID u) bID) w
      in case fault e (CallHandleUpload p (User_ID u) bID) of
           Some err \<Rightarrow> (Inl err, w1)
         | None \<Rightarrow>
             (case objects w1 UploadsBucket p of
                None \<Rightarrow> (Inl ErrNotFound, w1)
              | Some h \<Rightarrow>
                  (Inr (trackOf e p bID),
                   w1\<lparr>users := (users w1)(User_ID u :=
                         map_option (\<lambda>pu. pu\<lparr>Usage := Usage pu + HeadSize h\<rparr>)
                           (users w1 (User_ID u)))\<rparr>)))"

text \<open>
  Modelled from the spec: \<^verbatim>\<open>User.UpdateLastMod\<close> (package tube) sets the user's
  last-modified marker to the current time.
\<close>

definition UpdateLastMod :: "env \<Rightarrow> User \<Rightarrow> world \<Rightarrow> error option \<times> world" where
  "UpdateLastMod e u w =
     (let w1 = logCall (CallUpdateLastMod (User_ID u)) w
      in case fault e (CallUpdateLastMod (User_ID u)) of
           Some err \<Rightarrow> (Some err, w1)
         | None \<Rightarrow>
             (None, w1\<lparr>users := (users w1)(User_ID u :=
                      map_option (\<lambda>pu. pu\<lparr>LastMod := now e\<rparr>) (users w1 (User_ID u)))\<rparr>))"

text \<open>
  Modelled from the spec: \<^verbatim>\<open>createB2Token\<close> (package web, another file) asks the
  storage backend for a token and its expiry, keyed by the user's identity, and
  \<^verbatim>\<open>User.SetB2Token\<close> (package tube) persists both fields on the user record.
\<close>

definition createB2Token :: "env \<Rightarrow> int \<Rightarrow> world \<Rightarrow> (error + string \<times> int) \<times> world" where
  "createB2Token e uid w =
     (let w1 = logCall (CallCreateB2Token uid) w
      in case fault e (CallCreateB2Token uid) of
           Some err \<Rightarrow> (Inl err, w1)
         | None \<Rightarrow> (Inr (b2backend e uid), w1))"

definition SetB2Token ::
  "env \<Rightarrow> User \<Rightarrow> string \<Rightarrow> int \<Rightarrow> world \<Rightarrow> error option \<times> User \<times> world" where
  "SetB2Token e u token expire w =
     (let w1 = logCall (CallSetB2Token (User_ID u) token expire) w
      in case fault e (CallSetB2Token (User_ID u) token expire) of
           Some err \<Rightarrow> (Some err, u, w1)
         | None \<Rightarrow>
             (None, u\<lparr>B2Token := token, B2Expire := expire\<rparr>,
              w1\<lparr>users := (users w1)(User_ID u :=
                    map_option (\<lambda>pu. pu\<lparr>B2Token := token, B2Expire := expire\<rparr>)
                      (users w1 (User_ID u)))\<rparr>))"

section \<open>The token refresher\<close>

text \<open>
  \<^verbatim>\<open>refreshB2Token(ctx, u, fudge)\<close>. The negation \<^verbatim>\<open>-fudge\<close> is an \<^verbatim>\<open>int64\<close>
  negation; \<^verbatim>\<open>Add\<close> shifts the instant and \<^verbatim>\<open>Before\<close> compares instants. The user
  is passed by pointer: the updated user is returned with the error and the state.
\<close>

definition refreshB2Token :: "env \<Rightarrow> User \<Rightarrow> int \<Rightarrow> world \<Rightarrow> error option \<times> User \<times> world" where
  "refreshB2Token e u fudge w =
     (let now1 = now e + wrap64 (- fudge)
      in if B2Token u \<noteq> [] \<and> now1 < B2Expire u then (None, u, w)
         else
           (case createB2Token e (User_ID u) w of
              (Inl err, w1) \<Rightarrow> (Some err, u, w1)
            | (Inr (token, expire), w1) \<Rightarrow> SetB2Token e u token expire w1))"

section \<open>Upload start\<close>

text \<open>
  The message of the size check, \<^verbatim>\<open>"file too big. max size is " +
  strconv.FormatInt(maxFileSize/1000/1000, 10) + "MB"\<close>, with the constant folded. A
  \<open>Line\<close> of the body is what \<^verbatim>\<open>fmt.Fprintln\<close> writes.
\<close>

definition tooBig :: string where
  "tooBig = ''file too big. max size is 500MB''"

text \<open>
  \<^verbatim>\<open>uploadStart\<close>: the form values of the request are a map, the calling user comes
  from the context. The result is how the handler ended, the response written so far, and
  the state.
\<close>

definition uploadStart ::
  "env \<Rightarrow> User option \<Rightarrow> (string \<rightharpoonup> string) \<Rightarrow> world \<Rightarrow> outcome \<times> response \<times> world" where
  "uploadStart e ctx form w =
     (let u = fst (userFrom ctx);
          name = FormValue form ''name'';
          filetype = FormValue form ''type''
      in case ParseInt (FormValue form ''size'') of
           Inl err \<Rightarrow> (Panic (PanicErr err), emptyResponse, w)
         | Inr sz \<Rightarrow>
             if sz = 0 then (Panic (PanicStr ''missing file size''), emptyResponse, w)
             else
               (let localMod = (case ParseInt (FormValue form ''lastmod'') of
                                  Inr msec \<Rightarrow> msec | Inl err \<Rightarrow> 0);
                    rw = SetHeader ''Tube-Upload-Usage'' (DecInt (Usage u)) emptyResponse;
                    rw = SetHeader ''Tube-Upload-Quota'' (DecInt (CalcQuota u)) rw
                in if sz > maxFileSize then (Done, Write (Line tooBig) (WriteHeader 400 rw), w)
                   else if CalcQuota u \<noteq> 0 \<and> wrap64 (Usage u + sz) > CalcQuota u
                   then (Done, Write (Line ''upload quota exceeded'') (WriteHeader 400 rw), w)
                   else
                     (case NewFile e (User_ID u) name sz w of
                        (zf0, w1) \<Rightarrow>
                          (let zf = zf0\<lparr>Type := filetype, LocalMod := localMod\<rparr>
                           in case Create e zf w1 of
                                (Some err, w2) \<Rightarrow> (Panic (PanicErr err), rw, w2)
                              | (None, w2) \<Rightarrow>
                                  (case Exists e UploadsBucket (Path e zf) w2 of
                                     (True, w3) \<Rightarrow> (Panic (PanicStr ''already exists?!''), rw, w3)
                                   | (False, w3) \<Rightarrow>
                                       (let disp = encodeContentDisp name
                                        in case PresignPut e UploadsBucket (Path e zf) sz disp w3 of
                                             (Inl err, w4) \<Rightarrow> (Panic (PanicErr err), rw, w4)
                                           | (Inr url, w4) \<Rightarrow>
                                               (let rw = SetHeader ''Tube-Upload-ID'' (Str (ID zf)) rw;
                                                    rw = SetHeader ''Content-Type'' (Str ''application/json'') rw;
                                                    rw = WriteHeader 200 rw
                                                in case fault e CallEncode of
                                                     Some err \<Rightarrow> (Panic (PanicErr err), rw, w4)
                                                   | None \<Rightarrow>
                                                       (Done, Write (JsonUpload (ID zf) disp url) rw, w4))))))))"

text \<open>
  \<^verbatim>\<open>uploadStart2\<close>: one item of the decoded request body, and the loop over the
  items. The loop ends the request early (\<open>Inl\<close>: a panic, or the response of the size
  check) or hands the total size and the output on (\<open>Inr\<close>).
\<close>

record item =
  itemName :: string
  itemType :: string
  itemSize :: int
  itemLocalMod :: int

fun uploadStart2_loop ::
  "env \<Rightarrow> User \<Rightarrow> item list \<Rightarrow> int \<Rightarrow> (string \<times> string \<times> string) list \<Rightarrow> world \<Rightarrow>
   (outcome \<times> response + int \<times> (string \<times> string \<times> string) list) \<times> world" where
  "uploadStart2_loop e u [] totalsize output w = (Inr (totalsize, output), w)"
| "uploadStart2_loop e u (f # input) totalsize output w =
     (if itemSize f = 0 then (Inl (Panic (PanicStr ''missing file size''), emptyResponse), w)
      else if itemSize f > maxFileSize
      then (Inl (Done, Write (Line tooBig) (WriteHeader 400 emptyResponse)), w)
      else
        (let totalsize1 = wrap64 (totalsize + itemSize f)
         in case NewFile e (User_ID u) (itemName f) (itemSize f) w of
              (zf0, w1) \<Rightarrow>
                (let zf = zf0\<lparr>Type := itemType f, LocalMod := itemLocalMod f\<rparr>
                 in case Create e zf w1 of
                      (Some err, w2) \<Rightarrow> (Inl (Panic (PanicErr err), emptyResponse), w2)
                    | (None, w2) \<Rightarrow>
                        (case Exists e UploadsBucket (Path e zf) w2 of
                           (True, w3) \<Rightarrow>
                             (Inl (Panic (PanicStr (''already exists?! '' @ ID zf)), emptyResponse), w3)
                         | (False, w3) \<Rightarrow>
                             (let disp = encodeContentDisp (itemName f)
                              in case PresignPut e UploadsBucket (Path e zf) (itemSize f) disp w3 of
                                   (Inl err, w4) \<Rightarrow> (Inl (Panic (PanicErr err), emptyResponse), w4)
                                 | (Inr url, w4) \<Rightarrow>
                                     uploadStart2_loop e u input totalsize1
                                       (output @ [(ID zf, disp, url)]) w4)))))"

text \<open>The body is the decoded list of items, or the error of the JSON decoder.\<close>

definition uploadStart2 ::
  "env \<Rightarrow> User option \<Rightarrow> error + item list \<Rightarrow> world \<Rightarrow> outcome \<times> response \<times> world" where
  "uploadStart2 e ctx reqBody w =
     (let u = fst (userFrom ctx)
      in case reqBody of
           Inl err \<Rightarrow> (Panic (PanicErr err), emptyResponse, w)
         | Inr input \<Rightarrow>
             (case uploadStart2_loop e u input 0 [] w of
                (Inl (out, rw), w1) \<Rightarrow> (out, rw, w1)
              | (Inr (totalsize, output), w1) \<Rightarrow>
                  if CalcQuota u \<noteq> 0 \<and> wrap64 (Usage u + totalsize) > CalcQuota u
                  then (Done, Write (Line ''would exceed upload quota'')
                                (WriteHeader 400 emptyResponse), w1)
                  else
                    (let rw = SetHeader ''Content-Type'' (Str ''application/json'') emptyResponse;
                         rw = SetHeader ''Tube-Upload-Usage'' (DecInt (Usage u)) rw;
                         rw = SetHeader ''Tube-Upload-Quota'' (DecInt (CalcQuota u)) rw;
                         rw = WriteHeader 200 rw
                     in case fault e CallEncode of
                          Some err \<Rightarrow> (Panic (PanicErr err), rw, w1)
                        | None \<Rightarrow> (Done, Write (JsonUploads output) rw, w1))))"

section \<open>Upload finish\<close>

definition QueryGet :: "(string \<rightharpoonup> string) \<Rightarrow> string \<Rightarrow> string" where
  "QueryGet q k = (case q k of Some v \<Rightarrow> v | None \<Rightarrow> [])"

text \<open>
  \<^verbatim>\<open>uploadFinish\<close>: \<open>fid\<close> is the path parameter \<^verbatim>\<open>id\<close>, \<open>q\<close> the query of the
  request. The two \<^verbatim>\<open>fmt.Println\<close> calls write to the standard output of the process,
  not to the response.
\<close>

definition uploadFinish ::
  "env \<Rightarrow> User option \<Rightarrow> string \<Rightarrow> (string \<rightharpoonup> string) \<Rightarrow> world \<Rightarrow> outcome \<times> response \<times> world" where
  "uploadFinish e ctx fid q w =
     (case userFrom ctx of
        (u, ok) \<Rightarrow>
          if \<not> ok then (Panic (PanicStr ''no account''), emptyResponse, w)
          else
            (let bID = QueryGet q ''bid''
             in if bID = [] then (Panic (PanicStr ''no bid''), emptyResponse, w)
                else
                  (case GetFile e fid w of
                     (Inl err, w1) \<Rightarrow> (Panic (PanicErr err), emptyResponse, w1)
                   | (Inr f, w1) \<Rightarrow>
                       if Deleted f \<or> UserID f \<noteq> User_ID u
                       then (Done, WriteHeader 403 emptyResponse, w1)
                       else
                         (case Head e UploadsBucket (Path e f) w1 of
                            (Inl err, w2) \<Rightarrow> (Panic (PanicErr err), emptyResponse, w2)
                          | (Inr head, w2) \<Rightarrow>
                              (case Finish e f (HeadType head) (HeadSize head) w2 of
                                 (Some err, f1, w3) \<Rightarrow> (Panic (PanicErr err), emptyResponse, w3)
                               | (None, f1, w3) \<Rightarrow>
                                   (let (rw, w4) =
                                          (if HeadSize head > maxFileSize
                                           then (WriteHeader 400 emptyResponse,
                                                 Delete e FilesBucket (Path e f1) w3)
                                           else (emptyResponse, w3))
                                    in case handleUpload e (Path e f1) u bID w4 of
                                         (Inl err, w5) \<Rightarrow> (Panic (PanicErr err), rw, w5)
                                       | (Inr track, w5) \<Rightarrow>
                                           (case UpdateLastMod e u w5 of
                                              (Some err, w6) \<Rightarrow> (Panic (PanicErr err), rw, w6)
                                            | (None, w6) \<Rightarrow>
                                                (case fault e CallEncode of
                                                   Some err \<Rightarrow> (Panic (PanicErr err), rw, w6)
                                                 | None \<Rightarrow>
                                                     (Done, Write (JsonTrack track) rw, w6)))))))))"

section \<open>Traces\<close>

text \<open>
  The presigned PUT operations a trace of calls issues: the \<^verbatim>\<open>PresignPut\<close> calls that
  did not fail.
\<close>

fun issuedBy :: "env \<Rightarrow> call list \<Rightarrow> (string \<times> int \<times> string) list" where
  "issuedBy e [] = []"
| "issuedBy e (CallPresignPut b p sz disp # cs) =
     (if fault e (CallPresignPut b p sz disp) = None then [(p, sz, disp)] else []) @ issuedBy e cs"
| "issuedBy e (c # cs) = issuedBy e cs"

text \<open>
  Every \<^verbatim>\<open>PresignPut\<close> of a trace comes after an \<^verbatim>\<open>Exists\<close> call for the same
  path in the same bucket (\<open>seen\<close> collects the paths checked so far), and that path
  holds no object.
\<close>

fun presignsChecked ::
  "(bucket \<Rightarrow> string \<rightharpoonup> ObjectInfo) \<Rightarrow> (bucket \<times> string) list \<Rightarrow> call list \<Rightarrow> bool" where
  "presignsChecked objs seen [] = True"
| "presignsChecked objs seen (CallExists b p # cs) = presignsChecked objs ((b, p) # seen) cs"
| "presignsChecked objs seen (CallPresignPut b p sz disp # cs) =
     ((b, p) \<in> set seen \<and> objs b p = None \<and> presignsChecked objs seen cs)"
| "presignsChecked objs seen (c # cs) = presignsChecked objs seen cs"

text \<open>Some \<^verbatim>\<open>Exists\<close> call of the trace asked for a path that holds an object.\<close>

definition foundObject :: "(bucket \<Rightarrow> string \<rightharpoonup> ObjectInfo) \<Rightarrow> call list \<Rightarrow> bool" where
  "foundObject objs cs = (\<exists>b p. CallExists b p \<in> set cs \<and> objs b p \<noteq> None)"

section \<open>Concrete requests\<close>

text \<open>
  A user with quota 1,000,000 and usage 900,000, an environment in which no collaborator
  fails, and the states the scenarios below start from.
\<close>

definition user0 :: User where
  "user0 = \<lparr>User_ID = 1, Usage = 900000, CalcQuota = 1000000, B2Token = [], B2Expire = 0,
            LastMod = 0\<rparr>"

definition user1 :: User where
  "user1 = \<lparr>User_ID = 1, Usage = 900000, CalcQuota = 1000000, B2Token = ''old'',
            B2Expire = 5000, LastMod = 0\<rparr>"

definition env0 :: env where
  "env0 = \<lparr>genID = (\<lambda>n. replicate (Suc n) CHR ''f''),
           pathOf = (\<lambda>uid fid. ''up/'' @ fid),
           presignURL = (\<lambda>p sz disp. ''https://storage/'' @ p),
           fault = (\<lambda>c. None),
           now = 1000,
           b2backend = (\<lambda>uid. (''token'', 9000)),
           trackOf = (\<lambda>p bID. ''track'')\<rparr>"

definition world0 :: world where
  "world0 = \<lparr>files = Map.empty, users = [1 \<mapsto> user0], objects = (\<lambda>b. Map.empty),
             presigned = [], nextID = 0, calls = []\<rparr>"

definition file0 :: "int \<Rightarrow> int \<Rightarrow> File" where
  "file0 uid sz = \<lparr>ID = ''f'', UserID = uid, Name = ''a.mp3'', Size = sz, Type = ''audio/mpeg'',
       LocalMod = 0, Deleted = False, Finished = False\<rparr>"

text \<open>
  A pending record \<open>f\<close> of declared size 100, owned by user \<open>uid\<close>, whose object in
  the uploads bucket has the size \<open>sz\<close>.
\<close>

definition uploaded :: "int \<Rightarrow> int \<Rightarrow> world" where
  "uploaded uid sz = world0\<lparr>files := [''f'' \<mapsto> file0 uid 100],
       objects := (\<lambda>b. Map.empty)
         (UploadsBucket := [''up/f'' \<mapsto> \<lparr>HeadType = ''audio/flac'', HeadSize = sz\<rparr>]),
       nextID := 1\<rparr>"

text \<open>No record yet, and an object already at the path of the next record.\<close>

definition collide :: world where
  "collide = world0\<lparr>objects := (\<lambda>b. Map.empty)
         (UploadsBucket := [''up/f'' \<mapsto> \<lparr>HeadType = ''audio/flac'', HeadSize = 7\<rparr>])\<rparr>"

definition item0 :: "int \<Rightarrow> item" where
  "item0 sz = \<lparr>itemName = ''a.mp3'', itemType = ''audio/mpeg'', itemSize = sz, itemLocalMod = 0\<rparr>"

definition form0 :: "string \<Rightarrow> (string \<rightharpoonup> string)" where
  "form0 sz = [''name'' \<mapsto> ''a.mp3'', ''type'' \<mapsto> ''audio/mpeg'', ''size'' \<mapsto> sz]"



section \<open>The encoder round-trips\<close>
























section \<open>Evaluating the handlers\<close>

lemmas coll_defs = NewFile_def Create_def Exists_def PresignPut_def GetFile_def Head_def
  Finish_def Delete_def handleUpload_def UpdateLastMod_def logCall_def Path_def userFrom_def
  Let_def

lemmas rw_defs = WriteHeader_def Write_def SetHeader_def emptyResponse_def

lemmas example_defs = env0_def user0_def world0_def item0_def file0_def uploaded_def
  collide_def form0_def

lemma ParseInt_0: "ParseInt ''0'' = Inr 0"
  by (simp add: ParseInt_def ParseUint_def isDigit_def)

lemma ParseInt_empty: "ParseInt [] = Inl ErrSyntax"
  by (simp add: ParseInt_def)

lemma ParseInt_100: "ParseInt ''100'' = Inr 100"
  by (simp add: ParseInt_def ParseUint_def isDigit_def)

lemma ParseInt_200000: "ParseInt ''200000'' = Inr 200000"
  by (simp add: ParseInt_def ParseUint_def isDigit_def)

lemma wrap64_neg: "- (2 ^ 63) < m \<Longrightarrow> m < 2 ^ 63 \<Longrightarrow> wrap64 (- m) = - m"
  by (simp add: wrap64_def)

section \<open>Upload start: the order of checks and effects\<close>

text \<open>
  The single upload start checks the quota before it creates anything: a request over the
  quota is answered with 400 and leaves the state as it was.
\<close>

lemma uploadStart_quota_first:
  "uploadStart env0 (Some user0) (form0 ''200000'') world0 =
     (Done,
      \<lparr>headers = [(''Tube-Upload-Usage'', DecInt 900000), (''Tube-Upload-Quota'', DecInt 1000000)],
       status = Some 400, body = [Line ''upload quota exceeded'']\<rparr>,
      world0)"
  using ParseInt_200000
  by (simp add: uploadStart_def FormValue_def userFrom_def rw_defs form0_def user0_def
      maxFileSize_def wrap64_def)

text \<open>
  Claim C1, at the request of the specification's scenario (quota 1,000,000, usage
  900,000, one item of declared size 200,000) sent as a batch: the batch is answered with
  400 \<open>would exceed upload quota\<close>, and by then the File record exists and the presigned
  PUT for its path has been issued.
\<close>

theorem uploadStart2_quota_checked_late:
  "(case uploadStart2 env0 (Some user0) (Inr [item0 200000]) world0 of
      (out, rw, w') \<Rightarrow>
        out = Done \<and> status rw = Some 400 \<and> body rw = [Line ''would exceed upload quota'']
        \<and> files w' ''f'' = Some (file0 1 200000)
        \<and> presigned w' = [(''up/f'', 200000, encodeContentDisp ''a.mp3'')])"
  by (simp add: uploadStart2_def coll_defs rw_defs env0_def user0_def world0_def item0_def
      file0_def maxFileSize_def wrap64_def)

text \<open>
  Claim C3, at a batch of an item of size 1 followed by an item of size 600,000,000: the
  batch is answered with 400 \<open>file too big\<close>, and the record and the presigned PUT of
  the first item are there.
\<close>

theorem uploadStart2_size_checked_late:
  "(case uploadStart2 env0 (Some user0) (Inr [item0 1, item0 600000000]) world0 of
      (out, rw, w') \<Rightarrow>
        out = Done \<and> status rw = Some 400 \<and> body rw = [Line tooBig]
        \<and> files w' ''f'' = Some (file0 1 1)
        \<and> presigned w' = [(''up/f'', 1, encodeContentDisp ''a.mp3'')])"
  by (simp add: uploadStart2_def coll_defs rw_defs env0_def user0_def world0_def item0_def
      file0_def maxFileSize_def wrap64_def)

text \<open>
  Claim C5, as the code has it. A single upload start whose declared size parses to zero
  panics with \<open>missing file size\<close>: nothing is written to the response, no collaborator
  is called, and the state is unchanged.
\<close>

theorem uploadStart_zero_size:
  "ParseInt (FormValue form ''size'') = Inr 0 \<Longrightarrow>
   uploadStart e ctx form w = (Panic (PanicStr ''missing file size''), emptyResponse, w)"
  by (simp add: uploadStart_def)

theorem uploadStart_zero_size_witness:
  "uploadStart env0 (Some user0) (form0 ''0'') world0 =
     (Panic (PanicStr ''missing file size''), emptyResponse, world0)"
  using uploadStart_zero_size [of "form0 ''0''" env0 "Some user0" world0] ParseInt_0
  by (simp add: FormValue_def form0_def)

text \<open>
  Claim C5 as stated fails: at declared size \<open>0\<close> the handler panics, and the status of
  the response is not 400 (no status is written at all).
\<close>

theorem uploadStart_zero_size_not_400:
  "fst (uploadStart env0 (Some user0) (form0 ''0'') world0) = Panic (PanicStr ''missing file size'')
   \<and> status (fst (snd (uploadStart env0 (Some user0) (form0 ''0'') world0))) \<noteq> Some 400"
  using ParseInt_0 by (simp add: uploadStart_def FormValue_def emptyResponse_def form0_def)

section \<open>Presigning only after the existence check\<close>

lemma loop_trace:
  "uploadStart2_loop e u input t out w = (r, w') \<Longrightarrow>
   \<exists>cs. calls w' = calls w @ cs \<and> presigned w' = presigned w @ issuedBy e cs
      \<and> objects w' = objects w
      \<and> presignsChecked (objects w) seen cs
      \<and> (foundObject (objects w) cs \<longrightarrow> (\<exists>msg. r = Inl (Panic (PanicStr msg), emptyResponse)))"
proof (induction input arbitrary: t out w seen)
  case Nil
  then show ?case by (auto simp: foundObject_def)
next
  case (Cons f input)
  let ?zf = "\<lparr>ID = genID e (nextID w), UserID = User_ID u, Name = itemName f, Size = itemSize f,
       Type = itemType f, LocalMod = itemLocalMod f, Deleted = False, Finished = False\<rparr>"
  let ?p = "Path e ?zf"
  let ?d = "encodeContentDisp (itemName f)"
  let ?w4 = "w\<lparr>nextID := Suc (nextID w), files := (files w)(ID ?zf \<mapsto> ?zf),
      calls := calls w @ [CallCreate ?zf, CallExists UploadsBucket ?p,
                 CallPresignPut UploadsBucket ?p (itemSize f) ?d],
      presigned := presigned w @ [(?p, itemSize f, ?d)]\<rparr>"
  show ?case
  proof (cases "itemSize f \<noteq> 0 \<and> \<not> itemSize f > maxFileSize
      \<and> fault e (CallCreate ?zf) = None \<and> objects w UploadsBucket ?p = None
      \<and> fault e (CallPresignPut UploadsBucket ?p (itemSize f) ?d) = None")
    case True
    then have "uploadStart2_loop e u (f # input) t out w =
        uploadStart2_loop e u input (wrap64 (t + itemSize f))
          (out @ [(ID ?zf, ?d, presignURL e ?p (itemSize f) ?d)]) ?w4"
      by (simp add: NewFile_def Create_def Exists_def PresignPut_def logCall_def Let_def)
    with Cons.prems have "uploadStart2_loop e u input (wrap64 (t + itemSize f))
          (out @ [(ID ?zf, ?d, presignURL e ?p (itemSize f) ?d)]) ?w4 = (r, w')" by simp
    from Cons.IH [OF this, of "(UploadsBucket, ?p) # seen"]
    obtain cs where cs: "calls w' = calls ?w4 @ cs" "presigned w' = presigned ?w4 @ issuedBy e cs"
      "objects w' = objects ?w4" "presignsChecked (objects ?w4) ((UploadsBucket, ?p) # seen) cs"
      "foundObject (objects ?w4) cs \<longrightarrow> (\<exists>msg. r = Inl (Panic (PanicStr msg), emptyResponse))"
      by blast
    let ?cs = "[CallCreate ?zf, CallExists UploadsBucket ?p,
                 CallPresignPut UploadsBucket ?p (itemSize f) ?d] @ cs"
    have "calls w' = calls w @ ?cs" using cs(1) by simp
    moreover have "presigned w' = presigned w @ issuedBy e ?cs" using cs(2) True by simp
    moreover have "objects w' = objects w" using cs(3) by simp
    moreover have "presignsChecked (objects w) seen ?cs" using cs(4) True by simp
    moreover have "foundObject (objects w) ?cs \<longrightarrow>
        (\<exists>msg. r = Inl (Panic (PanicStr msg), emptyResponse))"
      using cs(5) True by (auto simp: foundObject_def)
    ultimately show ?thesis by blast
  next
    case False
    note defs = NewFile_def Create_def Exists_def PresignPut_def logCall_def Let_def
    consider (zero) "itemSize f = 0"
      | (big) "itemSize f \<noteq> 0" "itemSize f > maxFileSize"
      | (create) err where "itemSize f \<noteq> 0" "\<not> itemSize f > maxFileSize"
          "fault e (CallCreate ?zf) = Some err"
      | (found) h where "itemSize f \<noteq> 0" "\<not> itemSize f > maxFileSize"
          "fault e (CallCreate ?zf) = None" "objects w UploadsBucket ?p = Some h"
      | (presign) err where "itemSize f \<noteq> 0" "\<not> itemSize f > maxFileSize"
          "fault e (CallCreate ?zf) = None" "objects w UploadsBucket ?p = None"
          "fault e (CallPresignPut UploadsBucket ?p (itemSize f) ?d) = Some err"
      using False by fastforce
    then show ?thesis
    proof cases
      case zero
      with Cons.prems have "r = Inl (Panic (PanicStr ''missing file size''), emptyResponse)" "w' = w"
        by simp_all
      then show ?thesis by (intro exI [of _ "[]"]) (simp add: foundObject_def)
    next
      case big
      with Cons.prems have "w' = w" by simp
      then show ?thesis by (intro exI [of _ "[]"]) (simp add: foundObject_def)
    next
      case create
      with Cons.prems have "calls w' = calls w @ [CallCreate ?zf]" "presigned w' = presigned w"
        "objects w' = objects w"
        by (auto simp: defs)
      then show ?thesis by (intro exI [of _ "[CallCreate ?zf]"]) (simp add: foundObject_def)
    next
      case found
      with Cons.prems have "calls w' = calls w @ [CallCreate ?zf, CallExists UploadsBucket ?p]"
        "presigned w' = presigned w" "objects w' = objects w"
        "r = Inl (Panic (PanicStr (''already exists?! '' @ ID ?zf)), emptyResponse)"
        by (auto simp: defs)
      then show ?thesis
        by (intro exI [of _ "[CallCreate ?zf, CallExists UploadsBucket ?p]"]) simp
    next
      case presign
      with Cons.prems have "calls w' = calls w @ [CallCreate ?zf, CallExists UploadsBucket ?p,
                 CallPresignPut UploadsBucket ?p (itemSize f) ?d]"
        "presigned w' = presigned w" "objects w' = objects w"
        by (auto simp: defs)
      with presign show ?thesis
        by (intro exI [of _ "[CallCreate ?zf, CallExists UploadsBucket ?p,
                 CallPresignPut UploadsBucket ?p (itemSize f) ?d]"]) (simp add: foundObject_def)
    qed
  qed
qed


lemma uploadStart_trace:
  assumes "uploadStart e ctx form w = (out, rw, w')"
  shows "\<exists>cs. calls w' = calls w @ cs \<and> presigned w' = presigned w @ issuedBy e cs
      \<and> objects w' = objects w
      \<and> presignsChecked (objects w) [] cs
      \<and> (foundObject (objects w) cs \<longrightarrow> (\<exists>msg. out = Panic (PanicStr msg)))"
proof (cases "ParseInt (FormValue form ''size'')")
  case (Inl err)
  with assms have "w' = w" by (simp add: uploadStart_def)
  then show ?thesis by (intro exI [of _ "[]"]) (simp add: foundObject_def)
next
  case (Inr sz)
  let ?u = "fst (userFrom ctx)"
  let ?lm = "case ParseInt (FormValue form ''lastmod'') of Inr msec \<Rightarrow> msec | Inl err \<Rightarrow> 0"
  let ?zf = "\<lparr>ID = genID e (nextID w), UserID = User_ID ?u, Name = FormValue form ''name'',
       Size = sz, Type = FormValue form ''type'', LocalMod = ?lm, Deleted = False,
       Finished = False\<rparr>"
  let ?p = "Path e ?zf"
  let ?d = "encodeContentDisp (FormValue form ''name'')"
  let ?quota = "CalcQuota ?u \<noteq> 0 \<and> wrap64 (Usage ?u + sz) > CalcQuota ?u"
  note defs = NewFile_def Create_def Exists_def PresignPut_def logCall_def Let_def
  consider (early) "sz = 0 \<or> sz > maxFileSize \<or> ?quota"
    | (create) err where "sz \<noteq> 0" "\<not> sz > maxFileSize" "\<not> ?quota"
        "fault e (CallCreate ?zf) = Some err"
    | (found) h where "sz \<noteq> 0" "\<not> sz > maxFileSize" "\<not> ?quota"
        "fault e (CallCreate ?zf) = None" "objects w UploadsBucket ?p = Some h"
    | (presign) "sz \<noteq> 0" "\<not> sz > maxFileSize" "\<not> ?quota"
        "fault e (CallCreate ?zf) = None" "objects w UploadsBucket ?p = None"
    by fastforce
  then show ?thesis
  proof cases
    case early
    with assms Inr have "w' = w" by (auto simp: uploadStart_def Let_def split: if_splits)
    then show ?thesis by (intro exI [of _ "[]"]) (simp add: foundObject_def)
  next
    case create
    with assms Inr have "calls w' = calls w @ [CallCreate ?zf]" "presigned w' = presigned w"
      "objects w' = objects w"
      by (auto simp: uploadStart_def defs)
    then show ?thesis by (intro exI [of _ "[CallCreate ?zf]"]) (simp add: foundObject_def)
  next
    case found
    with assms Inr have "calls w' = calls w @ [CallCreate ?zf, CallExists UploadsBucket ?p]"
      "presigned w' = presigned w" "objects w' = objects w"
      "out = Panic (PanicStr ''already exists?!'')"
      by (auto simp: uploadStart_def defs)
    then show ?thesis
      by (intro exI [of _ "[CallCreate ?zf, CallExists UploadsBucket ?p]"]) simp
  next
    case presign
    let ?cs = "[CallCreate ?zf, CallExists UploadsBucket ?p, CallPresignPut UploadsBucket ?p sz ?d]"
    from presign assms Inr have "calls w' = calls w @ ?cs"
      "presigned w' = presigned w @ issuedBy e ?cs" "objects w' = objects w"
      by (auto simp: uploadStart_def defs split: option.splits)
    with presign show ?thesis
      by (intro exI [of _ ?cs]) (simp add: foundObject_def)
  qed
qed

lemma uploadStart2_trace:
  assumes "uploadStart2 e ctx reqBody w = (out, rw, w')"
  shows "\<exists>cs. calls w' = calls w @ cs \<and> presigned w' = presigned w @ issuedBy e cs
      \<and> objects w' = objects w
      \<and> presignsChecked (objects w) [] cs
      \<and> (foundObject (objects w) cs \<longrightarrow> (\<exists>msg. out = Panic (PanicStr msg)))"
proof (cases reqBody)
  case (Inl err)
  with assms have "w' = w" by (simp add: uploadStart2_def)
  then show ?thesis by (intro exI [of _ "[]"]) (simp add: foundObject_def)
next
  case (Inr input)
  obtain r w1 where loop: "uploadStart2_loop e (fst (userFrom ctx)) input 0 [] w = (r, w1)"
    by (cases "uploadStart2_loop e (fst (userFrom ctx)) input 0 [] w") blast
  with assms Inr have w': "w' = w1"
    by (auto simp: uploadStart2_def Let_def split: sum.splits if_splits option.splits)
  from assms Inr loop have out: "\<And>msg. r = Inl (Panic (PanicStr msg), emptyResponse) \<Longrightarrow>
      out = Panic (PanicStr msg)"
    by (simp add: uploadStart2_def)
  from loop_trace [OF loop, of "[]"] w' out show ?thesis by blast
qed

text \<open>
  Claim C7. Whatever a single or a batch upload start does, the calls it makes extend the
  trace by some \<open>cs\<close> such that the presigned PUTs it issues are those of \<open>cs\<close>, each
  of them comes after an \<^verbatim>\<open>Exists\<close> check of the same path in the uploads bucket and is for
  a path that holds no object, and if any of its \<^verbatim>\<open>Exists\<close> checks meets an object the
  request ends in a panic. The buckets themselves are not changed.
\<close>

theorem presign_only_after_check:
  assumes "uploadStart e ctx form w = (out, rw, w')
         \<or> uploadStart2 e ctx reqBody w = (out, rw, w')"
  shows "\<exists>cs. calls w' = calls w @ cs \<and> presigned w' = presigned w @ issuedBy e cs
      \<and> objects w' = objects w
      \<and> presignsChecked (objects w) [] cs
      \<and> (foundObject (objects w) cs \<longrightarrow> (\<exists>msg. out = Panic (PanicStr msg)))"
  using assms uploadStart_trace uploadStart2_trace by blast

theorem presign_only_after_check_witness:
  "\<exists>rw w'. uploadStart env0 (Some user0) (form0 ''100'') collide =
       (Panic (PanicStr ''already exists?!''), rw, w')
     \<and> presigned w' = []
     \<and> objects collide UploadsBucket ''up/f'' \<noteq> None
     \<and> (\<exists>cs. calls w' = calls collide @ cs \<and> presigned w' = presigned collide @ issuedBy env0 cs
           \<and> presignsChecked (objects collide) [] cs
           \<and> CallExists UploadsBucket ''up/f'' \<in> set cs)"
proof -
  obtain out rw w' where r: "uploadStart env0 (Some user0) (form0 ''100'') collide = (out, rw, w')"
    by (cases "uploadStart env0 (Some user0) (form0 ''100'') collide") blast
  then have ev: "out = Panic (PanicStr ''already exists?!'')" "presigned w' = []"
    "calls w' = [CallCreate ((file0 1 100)), CallExists UploadsBucket ''up/f'']"
    using ParseInt_100
    by (auto simp: uploadStart_def FormValue_def coll_defs rw_defs example_defs maxFileSize_def
        wrap64_def ParseInt_empty)
  from presign_only_after_check [OF disjI1 [OF r]]
  obtain cs where cs: "calls w' = calls collide @ cs"
    "presigned w' = presigned collide @ issuedBy env0 cs"
    "presignsChecked (objects collide) [] cs"
    by blast
  from cs(1) ev(3) have "cs = [CallCreate (file0 1 100), CallExists UploadsBucket ''up/f'']"
    by (simp add: collide_def world0_def)
  then have "CallExists UploadsBucket ''up/f'' \<in> set cs"
    by simp
  moreover have "objects collide UploadsBucket ''up/f'' \<noteq> None"
    by (simp add: collide_def)
  ultimately show ?thesis using r ev cs by blast
qed

section \<open>Upload finish\<close>

text \<open>
  Claim C10. When the query has no \<open>bid\<close> or an empty one, the handler panics (with
  \<open>no account\<close> when the context holds no user, with \<open>no bid\<close> otherwise) before it
  calls any collaborator: the trace and the state are those it started with and the
  response is untouched.
\<close>

theorem uploadFinish_no_bid:
  "q ''bid'' = None \<or> q ''bid'' = Some [] \<Longrightarrow>
   uploadFinish e ctx fid q w =
     (Panic (PanicStr (if ctx = None then ''no account'' else ''no bid'')), emptyResponse, w)"
  by (auto simp: uploadFinish_def userFrom_def QueryGet_def split: option.splits)

theorem uploadFinish_no_bid_witness:
  "uploadFinish env0 (Some user0) ''f'' Map.empty (uploaded 1 100) =
     (Panic (PanicStr ''no bid''), emptyResponse, uploaded 1 100)"
  using uploadFinish_no_bid [of Map.empty env0 "Some user0" "''f''" "uploaded 1 100"] by simp

text \<open>
  Claim C6, as the code has it. For a caller with an account and a non-empty \<open>bid\<close>,
  when the lookup itself does not fail: if no record has the identifier, the handler
  panics with the error \<^verbatim>\<open>ErrNotFound\<close> of the lookup; if the record is deleted or owned by
  another user, the response is 403. In both cases the lookup is the only call made, and
  the File table, the User table, the buckets and the presigned PUTs are unchanged.
\<close>

theorem uploadFinish_not_resolved:
  assumes "ctx = Some u" and "QueryGet q ''bid'' \<noteq> []" and "fault e (CallGetFile fid) = None"
  shows "(files w fid = None \<longrightarrow>
            uploadFinish e ctx fid q w =
              (Panic (PanicErr ErrNotFound), emptyResponse, logCall (CallGetFile fid) w))
       \<and> (\<forall>f. files w fid = Some f \<and> (Deleted f \<or> UserID f \<noteq> User_ID u) \<longrightarrow>
            uploadFinish e ctx fid q w =
              (Done, WriteHeader 403 emptyResponse, logCall (CallGetFile fid) w))
       \<and> status (WriteHeader 403 emptyResponse) = Some 403
       \<and> files (logCall (CallGetFile fid) w) = files w
       \<and> users (logCall (CallGetFile fid) w) = users w
       \<and> objects (logCall (CallGetFile fid) w) = objects w
       \<and> presigned (logCall (CallGetFile fid) w) = presigned w"
  using assms
  by (auto simp: uploadFinish_def userFrom_def GetFile_def logCall_def WriteHeader_def
      emptyResponse_def Let_def)

theorem uploadFinish_not_resolved_witness:
  "uploadFinish env0 (Some user0) ''nope'' [''bid'' \<mapsto> ''b1''] (uploaded 2 100) =
     (Panic (PanicErr ErrNotFound), emptyResponse, logCall (CallGetFile ''nope'') (uploaded 2 100))
   \<and> uploadFinish env0 (Some user0) ''f'' [''bid'' \<mapsto> ''b1''] (uploaded 2 100) =
     (Done, WriteHeader 403 emptyResponse, logCall (CallGetFile ''f'') (uploaded 2 100))"
  using uploadFinish_not_resolved [of "Some user0" user0 "[''bid'' \<mapsto> ''b1'']" env0 "''nope''"
      "uploaded 2 100"]
    uploadFinish_not_resolved [of "Some user0" user0 "[''bid'' \<mapsto> ''b1'']" env0 "''f''"
      "uploaded 2 100"]
  by (simp add: QueryGet_def example_defs)

text \<open>
  Claim C6 as stated fails: for an identifier no record has, the handler panics with the
  lookup's error, and the status of the response is not 404.
\<close>

theorem uploadFinish_missing_not_404:
  "fst (uploadFinish env0 (Some user0) ''nope'' [''bid'' \<mapsto> ''b1''] world0)
     = Panic (PanicErr ErrNotFound)
   \<and> status (fst (snd (uploadFinish env0 (Some user0) ''nope'' [''bid'' \<mapsto> ''b1''] world0)))
     \<noteq> Some 404"
  by (simp add: uploadFinish_def userFrom_def GetFile_def logCall_def QueryGet_def
      emptyResponse_def env0_def world0_def Let_def)

text \<open>
  Claim C2, at a stored object of 500,000,001 bytes: the response has status 400, and yet
  the record is finished with the observed size, the object is still in the uploads bucket
  (the delete went to the files bucket), the processing ran and its track is the body of
  the response, and the user's usage and last-modified marker are updated.
\<close>

theorem uploadFinish_oversize_goes_on:
  "(case uploadFinish env0 (Some user0) ''f'' [''bid'' \<mapsto> ''b1''] (uploaded 1 500000001) of
      (out, rw, w') \<Rightarrow>
        out = Done \<and> status rw = Some 400 \<and> body rw = [JsonTrack ''track'']
        \<and> files w' ''f'' =
            Some ((file0 1 100)\<lparr>Type := ''audio/flac'', Size := 500000001, Finished := True\<rparr>)
        \<and> objects w' UploadsBucket ''up/f'' =
            Some \<lparr>HeadType = ''audio/flac'', HeadSize = 500000001\<rparr>
        \<and> calls w' = [CallGetFile ''f'', CallHead UploadsBucket ''up/f'',
             CallFinish ''f'' ''audio/flac'' 500000001, CallDelete FilesBucket ''up/f'',
             CallHandleUpload ''up/f'' 1 ''b1'', CallUpdateLastMod 1]
        \<and> users w' 1 = Some (user0\<lparr>Usage := 900000 + 500000001, LastMod := 1000\<rparr>))"
  by (simp add: uploadFinish_def QueryGet_def coll_defs rw_defs env0_def user0_def world0_def
      uploaded_def file0_def maxFileSize_def)



section \<open>The token refresher\<close>

text \<open>
  Claim C8, as the code has it. For a safety margin \<open>m\<close> whose negation is an \<^verbatim>\<open>int64\<close> (every duration
  but the least one): if the user's token is present and \<open>now - m\<close> is before its expiry,
  the call returns no error, makes no call and changes neither the user nor the state.
  Otherwise it asks the backend for a token: an error of the backend is returned as it is
  with the user unchanged; with a token and expiry from the backend, an error of the
  persisting call is returned as it is, and without one the call returns no error, both
  fields are set on the user and on the persisted user record, and the calls made are
  exactly those two.
\<close>

theorem refreshB2Token_policy:
  assumes "- (2 ^ 63) < m" and "m < 2 ^ 63"
  shows "(B2Token u \<noteq> [] \<and> now e - m < B2Expire u \<longrightarrow>
            refreshB2Token e u m w = (None, u, w))
       \<and> (\<not> (B2Token u \<noteq> [] \<and> now e - m < B2Expire u) \<longrightarrow>
            (\<forall>err. fault e (CallCreateB2Token (User_ID u)) = Some err \<longrightarrow>
               refreshB2Token e u m w = (Some err, u, logCall (CallCreateB2Token (User_ID u)) w))
          \<and> (\<forall>token expire. fault e (CallCreateB2Token (User_ID u)) = None
                \<and> b2backend e (User_ID u) = (token, expire) \<longrightarrow>
               (\<forall>err. fault e (CallSetB2Token (User_ID u) token expire) = Some err \<longrightarrow>
                  fst (refreshB2Token e u m w) = Some err)
             \<and> (fault e (CallSetB2Token (User_ID u) token expire) = None \<longrightarrow>
                  fst (refreshB2Token e u m w) = None
                \<and> fst (snd (refreshB2Token e u m w)) = u\<lparr>B2Token := token, B2Expire := expire\<rparr>
                \<and> calls (snd (snd (refreshB2Token e u m w))) =
                    calls w @ [CallCreateB2Token (User_ID u), CallSetB2Token (User_ID u) token expire]
                \<and> users (snd (snd (refreshB2Token e u m w))) (User_ID u) =
                    map_option (\<lambda>pu. pu\<lparr>B2Token := token, B2Expire := expire\<rparr>)
                      (users w (User_ID u)))))"
  using assms
  by (auto simp: refreshB2Token_def wrap64_neg createB2Token_def SetB2Token_def logCall_def Let_def)

theorem refreshB2Token_policy_witness:
  "refreshB2Token env0 user1 100 world0 = (None, user1, world0)
   \<and> fst (refreshB2Token env0 user0 100 world0) = None
   \<and> fst (snd (refreshB2Token env0 user0 100 world0)) =
       user0\<lparr>B2Token := ''token'', B2Expire := 9000\<rparr>
   \<and> users (snd (snd (refreshB2Token env0 user0 100 world0))) 1 =
       Some (user0\<lparr>B2Token := ''token'', B2Expire := 9000\<rparr>)"
  using refreshB2Token_policy [of 100 user1 env0 world0]
    refreshB2Token_policy [of 100 user0 env0 world0]
  by (simp add: env0_def user0_def user1_def world0_def)

text \<open>
  Claim C8 as stated fails at the least \<^verbatim>\<open>int64\<close> margin, whose negation wraps to
  itself: the token is present and \<open>now - m\<close> is not before its expiry, and yet the call
  returns without asking the backend and leaves the user as it was.
\<close>

theorem refreshB2Token_least_margin:
  "B2Token user1 \<noteq> []
   \<and> \<not> (now env0 - (- (2 ^ 63)) < B2Expire user1)
   \<and> refreshB2Token env0 user1 (- (2 ^ 63)) world0 = (None, user1, world0)"
  by (simp add: refreshB2Token_def wrap64_def env0_def user1_def)

end
